theory Spec2Isabelle
  imports Main
begin

section \<open>Azure connectors of multicloud\_pipeline: values, dictionaries, errors\<close>

text \<open>
  The module \<^verbatim>\<open>multicloud_pipeline/connectors/azure_connectors.py\<close> turns constructor
  arguments into URLs and option maps and forwards them to the engine's reader and writer
  builders. The engine is external: the model records the calls made on it and does not
  execute them. Logging (\<^verbatim>\<open>logger.info\<close>) has no effect on any result and is left out.

  Config values are typed \<^verbatim>\<open>Any\<close> in the source. The model covers the kinds of value a
  configuration holds: \<^verbatim>\<open>None\<close>, strings, booleans and integers.
\<close>

datatype pyval = PyNone | PyStr string | PyBool bool | PyInt int

text \<open>
  A Python \<^verbatim>\<open>dict\<close> with string keys, as the list of its items in insertion order. A
  well-formed dictionary has no key twice: \<open>distinct (map fst d)\<close>.
\<close>

type_synonym dict = "(string \<times> pyval) list"

text \<open>
  The exceptions the module can raise, by class; \<open>ValueError\<close> carries its message.
  \<open>SyntaxError\<close> is what compiling the module can raise before any of it runs.
\<close>

datatype error =
  ValueError string | TypeError | AttributeError | KeyError string | SyntaxError string

text \<open>\<^verbatim>\<open>key in d\<close>\<close>

definition dict_contains :: "dict \<Rightarrow> string \<Rightarrow> bool" where
  "dict_contains d k = (map_of d k \<noteq> None)"

text \<open>\<^verbatim>\<open>d.get(key, default)\<close>\<close>

definition dict_get :: "dict \<Rightarrow> string \<Rightarrow> pyval \<Rightarrow> pyval" where
  "dict_get d k dflt = (case map_of d k of None \<Rightarrow> dflt | Some v \<Rightarrow> v)"

text \<open>\<^verbatim>\<open>d[key]\<close>, which raises \<^verbatim>\<open>KeyError\<close> on a missing key\<close>

definition dict_getitem :: "dict \<Rightarrow> string \<Rightarrow> error + pyval" where
  "dict_getitem d k = (case map_of d k of None \<Rightarrow> Inl (KeyError k) | Some v \<Rightarrow> Inr v)"

text \<open>
  \<^verbatim>\<open>d[key] = value\<close>: an existing key keeps its position and takes the new value, a new key
  goes to the end.
\<close>

primrec dict_setitem :: "string \<Rightarrow> pyval \<Rightarrow> dict \<Rightarrow> dict" where
  "dict_setitem k v [] = [(k, v)]"
| "dict_setitem k v (p # ps) = (if fst p = k then (k, v) # ps else p # dict_setitem k v ps)"

text \<open>\<^verbatim>\<open>d.update(other)\<close>: the items of \<open>other\<close> are stored one by one, in its order.\<close>

definition dict_update :: "dict \<Rightarrow> dict \<Rightarrow> dict" where
  "dict_update d other = fold (\<lambda>(k, v) acc. dict_setitem k v acc) other d"

text \<open>
  Truth value of an \<^verbatim>\<open>Optional[Dict]\<close> (\<^verbatim>\<open>None\<close> and the empty dictionary are false) and of
  an \<^verbatim>\<open>Optional[str]\<close> (\<^verbatim>\<open>None\<close> and the empty string are false).
\<close>

definition truthy_dict :: "dict option \<Rightarrow> bool" where
  "truthy_dict d = (case d of None \<Rightarrow> False | Some items \<Rightarrow> items \<noteq> [])"

definition truthy_str :: "string option \<Rightarrow> bool" where
  "truthy_str s = (case s of None \<Rightarrow> False | Some cs \<Rightarrow> cs \<noteq> [])"

text \<open>\<^verbatim>\<open>config or {}\<close>\<close>

definition or_empty :: "dict option \<Rightarrow> dict" where
  "or_empty config = (if truthy_dict config then (case config of Some d \<Rightarrow> d | None \<Rightarrow> []) else [])"

text \<open>An \<^verbatim>\<open>Optional[str]\<close> argument as the value handed on to the engine.\<close>

definition py_of_opt_str :: "string option \<Rightarrow> pyval" where
  "py_of_opt_str s = (case s of None \<Rightarrow> PyNone | Some cs \<Rightarrow> PyStr cs)"

text \<open>Decimal digits of a natural number, for \<^verbatim>\<open>str(int)\<close>.\<close>

function str_nat :: "nat \<Rightarrow> string" where
  "str_nat n =
     (if n < 10 then [char_of (48 + n)]
      else str_nat (n div 10) @ [char_of (48 + n mod 10)])"
  by pat_completeness auto
termination
  by (relation "measure id") auto

text \<open>What an f-string inserts for a value: \<^verbatim>\<open>format(value, "")\<close>, that is \<^verbatim>\<open>str(value)\<close>.\<close>

fun py_str :: "pyval \<Rightarrow> string" where
  "py_str PyNone = ''None''"
| "py_str (PyStr s) = s"
| "py_str (PyBool b) = (if b then ''True'' else ''False'')"
| "py_str (PyInt i) = (if i < 0 then CHR ''-'' # str_nat (nat (- i)) else str_nat (nat i))"

section \<open>The engine's builders, as records of the calls made on them\<close>

text \<open>
  \<^verbatim>\<open>spark.conf\<close>: the session's runtime configuration, a map from key to value;
  \<^verbatim>\<open>spark.conf.set(key, value)\<close> stores one entry.
\<close>

type_synonym conf = "string \<rightharpoonup> pyval"

definition conf_set :: "string \<Rightarrow> pyval \<Rightarrow> conf \<Rightarrow> conf" where
  "conf_set k v c = c(k \<mapsto> v)"

text \<open>
  \<^verbatim>\<open>spark.read.format(f)\<close> and \<^verbatim>\<open>spark.readStream.format(f)\<close> give a reader; each
  \<^verbatim>\<open>.option(key, value)\<close> is appended to \<open>options\<close>, so the list holds the option calls in
  call order. \<^verbatim>\<open>.options(**d)\<close> sets the items of \<open>d\<close> in the order of \<open>d\<close>.
  \<^verbatim>\<open>.load(path)\<close> ends the chain: the result stands for the engine's DataFrame and records
  the reader and the path it was loaded from (\<open>None\<close> for \<^verbatim>\<open>.load()\<close>).
\<close>

record reader =
  format :: string
  options :: dict

record load_request = reader +
  path :: "string option"

definition read_format :: "string \<Rightarrow> reader" where
  "read_format f = \<lparr>format = f, options = []\<rparr>"

definition reader_option :: "string \<Rightarrow> pyval \<Rightarrow> reader \<Rightarrow> reader" where
  "reader_option k v r = r\<lparr>options := options r @ [(k, v)]\<rparr>"

definition reader_options :: "dict \<Rightarrow> reader \<Rightarrow> reader" where
  "reader_options d r = fold (\<lambda>(k, v) acc. reader_option k v acc) d r"

definition load :: "string option \<Rightarrow> reader \<Rightarrow> load_request" where
  "load p r = \<lparr>format = format r, options = options r, path = p\<rparr>"

text \<open>
  \<^verbatim>\<open>df.write.format(f)\<close> gives a writer for the DataFrame \<open>df\<close>, whose content the module
  never looks at (type \<open>'df\<close>). \<^verbatim>\<open>.mode\<close>, \<^verbatim>\<open>.partitionBy\<close> and \<^verbatim>\<open>.option\<close> update
  it, \<^verbatim>\<open>.save(path)\<close> ends the chain.
\<close>

record 'df writer =
  w_data :: 'df
  w_format :: string
  w_mode :: "string option"
  w_partition_by :: "string list option"
  w_options :: dict

record 'df save_request = "'df writer" +
  w_path :: "string option"

definition write_format :: "'df \<Rightarrow> string \<Rightarrow> 'df writer" where
  "write_format df f =
     \<lparr>w_data = df, w_format = f, w_mode = None, w_partition_by = None, w_options = []\<rparr>"

definition writer_mode :: "string \<Rightarrow> 'df writer \<Rightarrow> 'df writer" where
  "writer_mode m w = w\<lparr>w_mode := Some m\<rparr>"

definition writer_partitionBy :: "string list \<Rightarrow> 'df writer \<Rightarrow> 'df writer" where
  "writer_partitionBy cols w = w\<lparr>w_partition_by := Some cols\<rparr>"

definition writer_option :: "string \<Rightarrow> pyval \<Rightarrow> 'df writer \<Rightarrow> 'df writer" where
  "writer_option k v w = w\<lparr>w_options := w_options w @ [(k, v)]\<rparr>"

definition save :: "string option \<Rightarrow> 'df writer \<Rightarrow> 'df save_request" where
  "save p w =
     \<lparr>w_data = w_data w, w_format = w_format w, w_mode = w_mode w,
      w_partition_by = w_partition_by w, w_options = w_options w, w_path = p\<rparr>"

text \<open>
  \<^verbatim>\<open>df.writeStream.format(f)\<close> gives a stream writer; \<^verbatim>\<open>.outputMode\<close>, \<^verbatim>\<open>.options\<close>,
  \<^verbatim>\<open>.option\<close> and \<^verbatim>\<open>.trigger(processingTime=...)\<close> update it and \<^verbatim>\<open>.start()\<close> returns
  the query, which records the finished writer.
\<close>

record 'df stream_writer =
  sw_data :: 'df
  sw_format :: string
  sw_output_mode :: "string option"
  sw_options :: dict
  sw_trigger :: "string option"

definition write_stream_format :: "'df \<Rightarrow> string \<Rightarrow> 'df stream_writer" where
  "write_stream_format df f =
     \<lparr>sw_data = df, sw_format = f, sw_output_mode = None, sw_options = [], sw_trigger = None\<rparr>"

definition sw_outputMode :: "string \<Rightarrow> 'df stream_writer \<Rightarrow> 'df stream_writer" where
  "sw_outputMode m w = w\<lparr>sw_output_mode := Some m\<rparr>"

definition sw_option :: "string \<Rightarrow> pyval \<Rightarrow> 'df stream_writer \<Rightarrow> 'df stream_writer" where
  "sw_option k v w = w\<lparr>sw_options := sw_options w @ [(k, v)]\<rparr>"

definition sw_options_all :: "dict \<Rightarrow> 'df stream_writer \<Rightarrow> 'df stream_writer" where
  "sw_options_all d w = fold (\<lambda>(k, v) acc. sw_option k v acc) d w"

definition sw_trigger_processingTime :: "string \<Rightarrow> 'df stream_writer \<Rightarrow> 'df stream_writer" where
  "sw_trigger_processingTime t w = w\<lparr>sw_trigger := Some t\<rparr>"

text \<open>
  The value the engine holds for an option key once the chain is finished: the builders
  keep one value per key and a later \<^verbatim>\<open>.option\<close> call replaces an earlier one, so it is the
  value of the last call for that key.
\<close>

definition received :: "dict \<Rightarrow> string \<Rightarrow> pyval option" where
  "received calls k = map_of (rev calls) k"

section \<open>AzureConnector: the base class\<close>

record azure_connector =
  account_name :: string
  config :: dict

text \<open>\<^verbatim>\<open>AzureConnector.__init__\<close>; the session handle is threaded as the \<open>conf\<close> it holds.\<close>

definition azure_connector_init :: "string \<Rightarrow> dict option \<Rightarrow> azure_connector" where
  "azure_connector_init account_name' config' =
     \<lparr>account_name = account_name', config = or_empty config'\<rparr>"

text \<open>
  \<^verbatim>\<open>AzureConnector._configure_auth\<close>. The arguments of \<^verbatim>\<open>conf.set\<close> are evaluated from left to
  right, so in the \<^verbatim>\<open>sas_token\<close> branch \<^verbatim>\<open>self.config['container']\<close> is read first and an absent
  key raises \<^verbatim>\<open>KeyError\<close> before anything is set.
\<close>

definition configure_auth ::
  "'a azure_connector_scheme \<Rightarrow> pyval \<Rightarrow> conf \<Rightarrow> error + conf" where
  "configure_auth self auth_type spark_conf =
     (if auth_type = PyStr ''account_key'' \<and> dict_contains (config self) ''account_key'' then
        (case dict_getitem (config self) ''account_key'' of
           Inl e \<Rightarrow> Inl e
         | Inr key \<Rightarrow>
             Inr (conf_set
                    (''fs.azure.account.key.'' @ account_name self @ ''.dfs.core.windows.net'')
                    key spark_conf))
      else if auth_type = PyStr ''sas_token'' \<and> dict_contains (config self) ''sas_token'' then
        (case dict_getitem (config self) ''container'' of
           Inl e \<Rightarrow> Inl e
         | Inr cont \<Rightarrow>
             (case dict_getitem (config self) ''sas_token'' of
                Inl e \<Rightarrow> Inl e
              | Inr token \<Rightarrow>
                  Inr (conf_set
                         (''fs.azure.sas.'' @ py_str cont @ ''.'' @ account_name self
                            @ ''.blob.core.windows.net'')
                         token spark_conf)))
      else if auth_type = PyStr ''managed_identity'' then
        Inr (conf_set ''fs.azure.account.oauth.provider.type''
               (PyStr ''org.apache.hadoop.fs.azurebfs.oauth2.MsiTokenProvider'')
               (conf_set ''fs.azure.account.auth.type'' (PyStr ''OAuth'') spark_conf))
      else Inr spark_conf)"

section \<open>AzureBlobConnector and AzureDataLakeGen2Connector\<close>

text \<open>
  Both classes extend \<^verbatim>\<open>AzureConnector\<close> by the field \<^verbatim>\<open>container\<close> and have the same
  constructor, so one record type serves both.
\<close>

record storage_connector = azure_connector +
  container :: string

text \<open>
  \<^verbatim>\<open>config.get("auth_type", "account_key") if config else "account_key"\<close>, the argument of
  \<^verbatim>\<open>_configure_auth\<close> in both constructors.
\<close>

definition auth_type_of :: "dict option \<Rightarrow> pyval" where
  "auth_type_of config' =
     (if truthy_dict config'
      then (case config' of
              Some d \<Rightarrow> dict_get d ''auth_type'' (PyStr ''account_key'')
            | None \<Rightarrow> PyStr ''account_key'')
      else PyStr ''account_key'')"

definition storage_init ::
  "conf \<Rightarrow> string \<Rightarrow> string \<Rightarrow> dict option \<Rightarrow> error + (storage_connector \<times> conf)" where
  "storage_init spark_conf account_name' container' config' =
     (let base = azure_connector_init account_name' config';
          self = \<lparr>account_name = account_name base, config = config base,
                  container = container'\<rparr>
      in case configure_auth self (auth_type_of config') spark_conf of
           Inl e \<Rightarrow> Inl e
         | Inr spark_conf' \<Rightarrow> Inr (self, spark_conf'))"

definition AzureBlobConnector_init ::
  "conf \<Rightarrow> string \<Rightarrow> string \<Rightarrow> dict option \<Rightarrow> error + (storage_connector \<times> conf)" where
  "AzureBlobConnector_init = storage_init"

definition AzureDataLakeGen2Connector_init ::
  "conf \<Rightarrow> string \<Rightarrow> string \<Rightarrow> dict option \<Rightarrow> error + (storage_connector \<times> conf)" where
  "AzureDataLakeGen2Connector_init = storage_init"

text \<open>The loop \<^verbatim>\<open>if options: for key, value in options.items(): r = r.option(key, value)\<close>.\<close>

definition reader_apply :: "dict option \<Rightarrow> reader \<Rightarrow> reader" where
  "reader_apply opts r =
     (if truthy_dict opts
      then (case opts of Some d \<Rightarrow> fold (\<lambda>(k, v) acc. reader_option k v acc) d r | None \<Rightarrow> r)
      else r)"

definition writer_apply :: "dict option \<Rightarrow> 'df writer \<Rightarrow> 'df writer" where
  "writer_apply opts w =
     (if truthy_dict opts
      then (case opts of Some d \<Rightarrow> fold (\<lambda>(k, v) acc. writer_option k v acc) d w | None \<Rightarrow> w)
      else w)"

definition blob_full_path :: "storage_connector \<Rightarrow> string \<Rightarrow> string" where
  "blob_full_path self p =
     ''wasbs://'' @ container self @ ''@'' @ account_name self @ ''.blob.core.windows.net/'' @ p"

definition adls_full_path :: "storage_connector \<Rightarrow> string \<Rightarrow> string" where
  "adls_full_path self p =
     ''abfss://'' @ container self @ ''@'' @ account_name self @ ''.dfs.core.windows.net/'' @ p"

definition AzureBlobConnector_read ::
  "storage_connector \<Rightarrow> string \<Rightarrow> string \<Rightarrow> dict option \<Rightarrow> load_request" where
  "AzureBlobConnector_read self p fmt opts =
     (let full_path = blob_full_path self p;
          r = read_format fmt;
          r = reader_apply opts r
      in load (Some full_path) r)"

definition AzureBlobConnector_write ::
  "storage_connector \<Rightarrow> 'df \<Rightarrow> string \<Rightarrow> string \<Rightarrow> string \<Rightarrow> dict option \<Rightarrow> 'df save_request"
  where
  "AzureBlobConnector_write self df p fmt mode opts =
     (let full_path = blob_full_path self p;
          w = writer_mode mode (write_format df fmt);
          w = writer_apply opts w
      in save (Some full_path) w)"

definition AzureDataLakeGen2Connector_read ::
  "storage_connector \<Rightarrow> string \<Rightarrow> string \<Rightarrow> dict option \<Rightarrow> load_request" where
  "AzureDataLakeGen2Connector_read self p fmt opts =
     (let full_path = adls_full_path self p;
          r = read_format fmt;
          r = reader_apply opts r
      in load (Some full_path) r)"

text \<open>\<^verbatim>\<open>if partition_by:\<close> is false for \<^verbatim>\<open>None\<close> and for the empty list.\<close>

definition AzureDataLakeGen2Connector_write ::
  "storage_connector \<Rightarrow> 'df \<Rightarrow> string \<Rightarrow> string \<Rightarrow> string \<Rightarrow> string list option \<Rightarrow>
     dict option \<Rightarrow> 'df save_request" where
  "AzureDataLakeGen2Connector_write self df p fmt mode partition_by opts =
     (let full_path = adls_full_path self p;
          w = writer_mode mode (write_format df fmt);
          w = (case partition_by of
                 Some cols \<Rightarrow> (if cols \<noteq> [] then writer_partitionBy cols w else w)
               | None \<Rightarrow> w);
          w = writer_apply opts w
      in save (Some full_path) w)"

section \<open>AzureSynapseConnector and AzureSQLConnector\<close>

text \<open>The two classes have the same fields; they differ in the JDBC URL and in \<^verbatim>\<open>read\<close>.\<close>

record jdbc_connector =
  server :: string
  database :: string
  jdbc_config :: dict
  jdbc_url :: string
  connection_properties :: dict

text \<open>
  The dictionary literal of both constructors. It calls \<^verbatim>\<open>config.get\<close> on the constructor's
  argument, not on \<^verbatim>\<open>self.config\<close>: with \<^verbatim>\<open>None\<close> the attribute lookup raises
  \<^verbatim>\<open>AttributeError\<close>.
\<close>

definition make_connection_properties :: "dict option \<Rightarrow> error + dict" where
  "make_connection_properties config' =
     (case config' of
        None \<Rightarrow> Inl AttributeError
      | Some d \<Rightarrow>
          Inr [(''user'', dict_get d ''user'' (PyStr '''')),
               (''password'', dict_get d ''password'' (PyStr '''')),
               (''driver'', PyStr ''com.microsoft.sqlserver.jdbc.SQLServerDriver'')])"

definition AzureSynapseConnector_init ::
  "string \<Rightarrow> string \<Rightarrow> dict option \<Rightarrow> error + jdbc_connector" where
  "AzureSynapseConnector_init server' database' config' =
     (let url = ''jdbc:sqlserver://'' @ server' @ '':1433;database='' @ database'
      in case make_connection_properties config' of
           Inl e \<Rightarrow> Inl e
         | Inr props \<Rightarrow>
             Inr \<lparr>server = server', database = database', jdbc_config = or_empty config',
                  jdbc_url = url, connection_properties = props\<rparr>)"

definition AzureSQLConnector_init ::
  "string \<Rightarrow> string \<Rightarrow> dict option \<Rightarrow> error + jdbc_connector" where
  "AzureSQLConnector_init server' database' config' =
     (let url = ''jdbc:sqlserver://'' @ server' @ '':1433;database='' @ database'
                @ '';encrypt=true;trustServerCertificate=false;hostNameInCertificate=*.database.windows.net;loginTimeout=30''
      in case make_connection_properties config' of
           Inl e \<Rightarrow> Inl e
         | Inr props \<Rightarrow>
             Inr \<lparr>server = server', database = database', jdbc_config = or_empty config',
                  jdbc_url = url, connection_properties = props\<rparr>)"

text \<open>
  The part of \<^verbatim>\<open>read\<close> after the argument checks, the same in both classes: the URL, the
  connection properties, \<^verbatim>\<open>dbtable\<close> or \<^verbatim>\<open>query\<close>, the caller's options, \<^verbatim>\<open>load()\<close>.
\<close>

definition jdbc_read_body ::
  "jdbc_connector \<Rightarrow> string option \<Rightarrow> string option \<Rightarrow> dict option \<Rightarrow> load_request" where
  "jdbc_read_body self table query opts =
     (let r = reader_option ''url'' (PyStr (jdbc_url self)) (read_format ''jdbc'');
          r = fold (\<lambda>(k, v) acc. reader_option k v acc) (connection_properties self) r;
          r = (if truthy_str table then reader_option ''dbtable'' (py_of_opt_str table) r
               else reader_option ''query'' (py_of_opt_str query) r);
          r = reader_apply opts r
      in load None r)"

definition AzureSynapseConnector_read ::
  "jdbc_connector \<Rightarrow> string option \<Rightarrow> string option \<Rightarrow> dict option \<Rightarrow> error + load_request"
  where
  "AzureSynapseConnector_read self table query opts =
     (if truthy_str table \<and> truthy_str query then
        Inl (ValueError ''Provide either table or query, not both'')
      else if \<not> truthy_str table \<and> \<not> truthy_str query then
        Inl (ValueError ''Provide either table or query'')
      else Inr (jdbc_read_body self table query opts))"

definition AzureSQLConnector_read ::
  "jdbc_connector \<Rightarrow> string option \<Rightarrow> string option \<Rightarrow> dict option \<Rightarrow> error + load_request"
  where
  "AzureSQLConnector_read self table query opts =
     (if truthy_str table \<and> truthy_str query then
        Inl (ValueError ''Provide either table or query, not both'')
      else Inr (jdbc_read_body self table query opts))"

text \<open>\<^verbatim>\<open>write\<close>, the same statements in both classes.\<close>

definition jdbc_write ::
  "jdbc_connector \<Rightarrow> 'df \<Rightarrow> string \<Rightarrow> string \<Rightarrow> dict option \<Rightarrow> 'df save_request" where
  "jdbc_write self df table mode opts =
     (let w = writer_mode mode
                (writer_option ''dbtable'' (PyStr table)
                   (writer_option ''url'' (PyStr (jdbc_url self)) (write_format df ''jdbc'')));
          w = fold (\<lambda>(k, v) acc. writer_option k v acc) (connection_properties self) w;
          w = writer_apply opts w
      in save None w)"

definition AzureSynapseConnector_write ::
  "jdbc_connector \<Rightarrow> 'df \<Rightarrow> string \<Rightarrow> string \<Rightarrow> dict option \<Rightarrow> 'df save_request" where
  "AzureSynapseConnector_write = jdbc_write"

definition AzureSQLConnector_write ::
  "jdbc_connector \<Rightarrow> 'df \<Rightarrow> string \<Rightarrow> string \<Rightarrow> dict option \<Rightarrow> 'df save_request" where
  "AzureSQLConnector_write = jdbc_write"

section \<open>AzureEventHubConnector\<close>

record eventhub_connector =
  namespace :: string
  eventhub_name :: string
  eventhub_config :: dict
  connection_string :: pyval

text \<open>
  The constructor tests \<^verbatim>\<open>"connection_string" in config\<close> on its argument, not on
  \<^verbatim>\<open>self.config\<close>: with \<^verbatim>\<open>None\<close> the membership test raises \<^verbatim>\<open>TypeError\<close>.
\<close>

definition AzureEventHubConnector_init ::
  "string \<Rightarrow> string \<Rightarrow> dict option \<Rightarrow> error + eventhub_connector" where
  "AzureEventHubConnector_init namespace' eventhub_name' config' =
     (case config' of
        None \<Rightarrow> Inl TypeError
      | Some d \<Rightarrow>
          (if dict_contains d ''connection_string'' then
             (case dict_getitem d ''connection_string'' of
                Inl e \<Rightarrow> Inl e
              | Inr cs \<Rightarrow>
                  Inr \<lparr>namespace = namespace', eventhub_name = eventhub_name',
                       eventhub_config = or_empty config', connection_string = cs\<rparr>)
           else Inl (ValueError ''connection_string is required in config'')))"

definition AzureEventHubConnector_read_stream ::
  "eventhub_connector \<Rightarrow> string \<Rightarrow> dict option \<Rightarrow> load_request" where
  "AzureEventHubConnector_read_stream self starting_position opts =
     (let eh_conf = [(''eventhubs.connectionString'', connection_string self),
                     (''eventhubs.startingPosition'',
                      PyStr (''{\"offset\": \"'' @ starting_position @ ''\"}''))];
          eh_conf = (if truthy_dict opts
                     then (case opts of Some d \<Rightarrow> dict_update eh_conf d | None \<Rightarrow> eh_conf)
                     else eh_conf)
      in load None (reader_options eh_conf (read_format ''eventhubs'')))"

definition AzureEventHubConnector_write_stream ::
  "eventhub_connector \<Rightarrow> 'df \<Rightarrow> string \<Rightarrow> string \<Rightarrow> string \<Rightarrow> 'df stream_writer" where
  "AzureEventHubConnector_write_stream self df checkpoint_location output_mode trigger =
     (let eh_conf = [(''eventhubs.connectionString'', connection_string self)]
      in sw_trigger_processingTime trigger
           (sw_option ''checkpointLocation'' (PyStr checkpoint_location)
              (sw_options_all eh_conf
                 (sw_outputMode output_mode (write_stream_format df ''eventhubs'')))))"

section \<open>Loading the module: the body of class AzureBlobConnector\<close>

text \<open>
  Between \<^verbatim>\<open>__init__\<close> and \<^verbatim>\<open>read\<close> the class body holds a fragment (lines 77 to 131) at
  the indentation of the class body itself: a function definition, an assignment, a
  \<^verbatim>\<open>for\<close> loop and a \<^verbatim>\<open>return\<close>. Python compiles a module before it runs any of it, and
  the compiler rejects a \<^verbatim>\<open>return\<close> that is not inside a function body. The statements of
  a class body are kept by their kind, compound statements with their blocks; the body of
  a function definition is its own scope and is not part of the check.
\<close>

datatype stmt =
    Expr
  | FunctionDef string
  | Assign
  | AnnAssign
  | For "stmt list"
  | If "stmt list" "stmt list"
  | Try "stmt list" "stmt list"
  | Continue
  | Return

fun return_outside_function :: "stmt \<Rightarrow> bool" where
  "return_outside_function Return = True"
| "return_outside_function (For body) = list_ex return_outside_function body"
| "return_outside_function (If body orelse) =
     (list_ex return_outside_function body \<or> list_ex return_outside_function orelse)"
| "return_outside_function (Try body handler) =
     (list_ex return_outside_function body \<or> list_ex return_outside_function handler)"
| "return_outside_function Expr = False"
| "return_outside_function (FunctionDef name) = False"
| "return_outside_function Assign = False"
| "return_outside_function AnnAssign = False"
| "return_outside_function Continue = False"

text \<open>The names a class body binds with \<^verbatim>\<open>def\<close>: the methods of the class.\<close>

fun defined_methods :: "stmt list \<Rightarrow> string list" where
  "defined_methods [] = []"
| "defined_methods (FunctionDef name # body) = name # defined_methods body"
| "defined_methods (s # body) = defined_methods body"

text \<open>Compiling a class body: an error, or the class with its methods.\<close>

definition compile_class_body :: "stmt list \<Rightarrow> error + string list" where
  "compile_class_body body =
     (if list_ex return_outside_function body
      then Inl (SyntaxError ''return outside function'')
      else Inr (defined_methods body))"

text \<open>
  The \<^verbatim>\<open>for\<close> loop of lines 93 to 129: an inner loop whose block assigns \<^verbatim>\<open>idx\<close>, skips
  on a missing index, declares \<^verbatim>\<open>t_val\<close>, converts the target by its type, reads \<^verbatim>\<open>M\<close> under
  \<^verbatim>\<open>try\<close> and stores the phase.
\<close>

definition fragment_loop :: stmt where
  "fragment_loop =
     For [For [Assign,
               If [Continue] [],
               AnnAssign,
               If [If [Assign] [Assign]] [If [Assign] [Continue]],
               Assign,
               Try [If [Assign] []] [Assign],
               If [Assign] [Assign]]]"

text \<open>Lines 77 to 131.\<close>

definition fragment :: "stmt list" where
  "fragment = [FunctionDef ''_find_index_for_key'', Assign, fragment_loop, Return]"

text \<open>The class body as it is in the file (lines 52 to 191), and with the fragment removed.\<close>

definition AzureBlobConnector_body :: "stmt list" where
  "AzureBlobConnector_body =
     [Expr, FunctionDef ''__init__''] @ fragment @ [FunctionDef ''read'', FunctionDef ''write'']"

definition AzureBlobConnector_body_without_fragment :: "stmt list" where
  "AzureBlobConnector_body_without_fragment =
     [Expr, FunctionDef ''__init__''] @ [FunctionDef ''read'', FunctionDef ''write'']"

section \<open>Lemmas on dictionaries and on the option calls of the builders\<close>

lemma options_fold_reader_option:
  "options (fold (\<lambda>(k, v) acc. reader_option k v acc) d r) = options r @ d"
  by (induction d arbitrary: r) (auto simp: reader_option_def)

lemma or_empty_simps:
  "or_empty None = []" "or_empty (Some d) = d"
  by (auto simp: or_empty_def truthy_dict_def)

lemma options_reader_apply: "options (reader_apply opts r) = options r @ or_empty opts"
  by (cases opts) (auto simp: reader_apply_def truthy_dict_def or_empty_simps options_fold_reader_option)

lemma options_reader_options: "options (reader_options d r) = options r @ d"
  by (simp add: reader_options_def options_fold_reader_option)

lemma w_options_fold_writer_option:
  "w_options (fold (\<lambda>(k, v) acc. writer_option k v acc) d w) = w_options w @ d"
  by (induction d arbitrary: w) (auto simp: writer_option_def)

lemma w_options_writer_apply: "w_options (writer_apply opts w) = w_options w @ or_empty opts"
  by (cases opts) (auto simp: writer_apply_def truthy_dict_def or_empty_simps w_options_fold_writer_option)

lemma map_of_dict_setitem: "map_of (dict_setitem k v d) = (map_of d)(k \<mapsto> v)"
  by (induction d) auto

lemma keys_dict_setitem:
  "map fst (dict_setitem k v d) = (if k \<in> set (map fst d) then map fst d else map fst d @ [k])"
  by (induction d) auto

lemma distinct_dict_setitem:
  "distinct (map fst d) \<Longrightarrow> distinct (map fst (dict_setitem k v d))"
  by (simp add: keys_dict_setitem)

lemma distinct_dict_update:
  "distinct (map fst d) \<Longrightarrow> distinct (map fst (dict_update d other))"
  unfolding dict_update_def
  by (induction other arbitrary: d) (auto simp: distinct_dict_setitem)

lemma map_of_dict_update:
  "map_of (dict_update d other) = map_of d ++ map_of (rev other)"
  unfolding dict_update_def
  by (induction other arbitrary: d) (auto simp: map_of_dict_setitem)

lemma map_of_rev_distinct: "distinct (map fst d) \<Longrightarrow> map_of (rev d) k = map_of d k"
proof (induction d)
  case Nil
  then show ?case by simp
next
  case (Cons p d)
  obtain a b where p: "p = (a, b)" by (cases p)
  from Cons.prems p have notin: "a \<notin> fst ` set d" and dist: "distinct (map fst d)"
    by auto
  from notin have none: "map_of d a = None"
    by (simp add: map_of_eq_None_iff)
  show ?case
  proof (cases "k = a")
    case True
    with none Cons.IH [OF dist] p show ?thesis
      by (simp add: map_add_def)
  next
    case False
    with Cons.IH [OF dist] p show ?thesis
      by (simp add: map_add_def split: option.splits)
  qed
qed

lemma received_distinct: "distinct (map fst d) \<Longrightarrow> received d k = map_of d k"
  unfolding received_def by (rule map_of_rev_distinct)

lemma received_append:
  "received (xs @ ys) k = (case received ys k of Some v \<Rightarrow> Some v | None \<Rightarrow> received xs k)"
  unfolding received_def by (auto simp: map_add_def split: option.splits)

lemma received_suffix:
  "distinct (map fst d) \<Longrightarrow> map_of d k = Some v \<Longrightarrow> received (pre @ d) k = Some v"
  by (simp add: received_append received_distinct)

lemma options_reader_option: "options (reader_option k v r) = options r @ [(k, v)]"
  by (simp add: reader_option_def)

lemma options_read_format: "options (read_format f) = []"
  by (simp add: read_format_def)

lemma w_options_writer_option: "w_options (writer_option k v w) = w_options w @ [(k, v)]"
  by (simp add: writer_option_def)

lemma w_options_writer_mode: "w_options (writer_mode m w) = w_options w"
  by (simp add: writer_mode_def)

lemma w_options_write_format: "w_options (write_format df f) = []"
  by (simp add: write_format_def)

lemma options_jdbc_read_body:
  "options (jdbc_read_body self table query opts) =
     [(''url'', PyStr (jdbc_url self))] @ connection_properties self
       @ [if truthy_str table then (''dbtable'', py_of_opt_str table)
          else (''query'', py_of_opt_str query)]
       @ or_empty opts"
  by (simp add: jdbc_read_body_def Let_def load_def options_reader_apply
      options_fold_reader_option options_reader_option options_read_format)

lemma w_options_jdbc_write:
  "w_options (jdbc_write self df table mode opts) =
     [(''url'', PyStr (jdbc_url self)), (''dbtable'', PyStr table)]
       @ connection_properties self @ or_empty opts"
  by (simp add: jdbc_write_def Let_def save_def w_options_writer_apply
      w_options_fold_writer_option w_options_writer_option w_options_writer_mode
      w_options_write_format)

lemma options_blob_read: "options (AzureBlobConnector_read self p fmt opts) = or_empty opts"
  by (simp add: AzureBlobConnector_read_def Let_def load_def options_reader_apply read_format_def)

lemma options_adls_read:
  "options (AzureDataLakeGen2Connector_read self p fmt opts) = or_empty opts"
  by (simp add: AzureDataLakeGen2Connector_read_def Let_def load_def options_reader_apply
      read_format_def)

lemma w_options_blob_write:
  "w_options (AzureBlobConnector_write self df p fmt mode opts) = or_empty opts"
  by (simp add: AzureBlobConnector_write_def Let_def save_def w_options_writer_apply
      writer_mode_def write_format_def)

lemma w_options_adls_write:
  "w_options (AzureDataLakeGen2Connector_write self df p fmt mode pb opts) = or_empty opts"
  by (simp add: AzureDataLakeGen2Connector_write_def Let_def save_def w_options_writer_apply
      writer_mode_def writer_partitionBy_def write_format_def split: option.splits)

lemma options_read_stream:
  "options (AzureEventHubConnector_read_stream self sp opts) =
     dict_update
       [(''eventhubs.connectionString'', connection_string self),
        (''eventhubs.startingPosition'', PyStr (''{\"offset\": \"'' @ sp @ ''\"}''))]
       (or_empty opts)"
  by (cases opts)
    (auto simp: AzureEventHubConnector_read_stream_def Let_def load_def options_reader_options
      read_format_def or_empty_simps truthy_dict_def dict_update_def)

lemma sw_options_write_stream:
  "sw_options (AzureEventHubConnector_write_stream self df cp om tr) =
     [(''eventhubs.connectionString'', connection_string self),
      (''checkpointLocation'', PyStr cp)]"
  by (simp add: AzureEventHubConnector_write_stream_def Let_def sw_trigger_processingTime_def
      sw_option_def sw_options_all_def sw_outputMode_def write_stream_format_def)

lemma received_absent: "k \<notin> fst ` set d \<Longrightarrow> received d k = None"
  unfolding received_def by (simp add: map_of_eq_None_iff)

lemma received_read_stream:
  "received (options (AzureEventHubConnector_read_stream self sp opts)) k =
     (case received (or_empty opts) k of
        Some v \<Rightarrow> Some v
      | None \<Rightarrow>
          map_of [(''eventhubs.connectionString'', connection_string self),
                  (''eventhubs.startingPosition'', PyStr (''{\"offset\": \"'' @ sp @ ''\"}''))] k)"
proof -
  let ?eh = "[(''eventhubs.connectionString'', connection_string self),
              (''eventhubs.startingPosition'', PyStr (''{\"offset\": \"'' @ sp @ ''\"}''))]"
  have "distinct (map fst ?eh)" by simp
  then have "distinct (map fst (dict_update ?eh (or_empty opts)))"
    by (rule distinct_dict_update)
  then have "received (dict_update ?eh (or_empty opts)) k
               = map_of (dict_update ?eh (or_empty opts)) k"
    by (rule received_distinct)
  also have "\<dots> = (map_of ?eh ++ map_of (rev (or_empty opts))) k"
    by (simp only: map_of_dict_update)
  also have "\<dots> = (case received (or_empty opts) k of
                       Some v \<Rightarrow> Some v | None \<Rightarrow> map_of ?eh k)"
    by (simp only: received_def map_add_def)
  finally show ?thesis
    by (simp only: options_read_stream)
qed

lemma jdbc_init_Some:
  "AzureSynapseConnector_init srv db (Some d)
     = Inr \<lparr>server = srv, database = db, jdbc_config = d,
            jdbc_url = ''jdbc:sqlserver://'' @ srv @ '':1433;database='' @ db,
            connection_properties =
              [(''user'', dict_get d ''user'' (PyStr '''')),
               (''password'', dict_get d ''password'' (PyStr '''')),
               (''driver'', PyStr ''com.microsoft.sqlserver.jdbc.SQLServerDriver'')]\<rparr>"
  "AzureSQLConnector_init srv db (Some d)
     = Inr \<lparr>server = srv, database = db, jdbc_config = d,
            jdbc_url = ''jdbc:sqlserver://'' @ srv @ '':1433;database='' @ db
              @ '';encrypt=true;trustServerCertificate=false;hostNameInCertificate=*.database.windows.net;loginTimeout=30'',
            connection_properties =
              [(''user'', dict_get d ''user'' (PyStr '''')),
               (''password'', dict_get d ''password'' (PyStr '''')),
               (''driver'', PyStr ''com.microsoft.sqlserver.jdbc.SQLServerDriver'')]\<rparr>"
  by (simp_all add: AzureSynapseConnector_init_def AzureSQLConnector_init_def
      make_connection_properties_def or_empty_simps)

lemma jdbc_init_None:
  "AzureSynapseConnector_init srv db None = Inl AttributeError"
  "AzureSQLConnector_init srv db None = Inl AttributeError"
  by (simp_all add: AzureSynapseConnector_init_def AzureSQLConnector_init_def
      make_connection_properties_def)

lemma jdbc_read_Inr:
  "AzureSynapseConnector_read c t q opts = Inr req \<Longrightarrow> req = jdbc_read_body c t q opts"
  "AzureSQLConnector_read c t q opts = Inr req \<Longrightarrow> req = jdbc_read_body c t q opts"
  by (auto simp: AzureSynapseConnector_read_def AzureSQLConnector_read_def split: if_splits)

section \<open>C1: the fragment inside class AzureBlobConnector\<close>

text \<open>
  \<^bold>\<open>C1\<close>. The claim: the phase and goal-vector fragment is disconnected, so every
  connector operation behaves as in the module without it. Evaluated on the class body as
  written: the fragment ends in a \<^verbatim>\<open>return\<close> at class level, so the class does not compile,
  while the body without the fragment compiles and offers \<^verbatim>\<open>__init__\<close>, \<^verbatim>\<open>read\<close> and
  \<^verbatim>\<open>write\<close>.
\<close>

theorem module_does_not_compile_with_fragment:
  "compile_class_body AzureBlobConnector_body = Inl (SyntaxError ''return outside function'')
   \<and> compile_class_body AzureBlobConnector_body_without_fragment
       = Inr [''__init__'', ''read'', ''write'']"
  by (simp add: compile_class_body_def AzureBlobConnector_body_def
      AzureBlobConnector_body_without_fragment_def fragment_def fragment_loop_def)

section \<open>C2: table and query are mutually exclusive\<close>

text \<open>
  \<^bold>\<open>C2\<close>. Whenever both a table and a query are supplied (both truthy),
  \<^verbatim>\<open>AzureSynapseConnector.read\<close> and \<^verbatim>\<open>AzureSQLConnector.read\<close> raise \<^verbatim>\<open>ValueError\<close>; the
  result is the error, so no reader is built and nothing is loaded.
\<close>

theorem read_rejects_table_and_query:
  assumes "truthy_str table" and "truthy_str query"
  shows "AzureSynapseConnector_read syn table query opts
           = Inl (ValueError ''Provide either table or query, not both'')
         \<and> AzureSQLConnector_read sql table query opts
           = Inl (ValueError ''Provide either table or query, not both'')"
  using assms by (simp add: AzureSynapseConnector_read_def AzureSQLConnector_read_def)

theorem read_rejects_table_and_query_witness:
  "truthy_str (Some ''fact_sales'') \<and> truthy_str (Some ''SELECT 1'')
   \<and> AzureSynapseConnector_read
         \<lparr>server = ''s'', database = ''d'', jdbc_config = [], jdbc_url = ''u'',
          connection_properties = []\<rparr>
         (Some ''fact_sales'') (Some ''SELECT 1'') None
       = Inl (ValueError ''Provide either table or query, not both'')
   \<and> AzureSQLConnector_read
         \<lparr>server = ''s'', database = ''d'', jdbc_config = [], jdbc_url = ''u'',
          connection_properties = []\<rparr>
         (Some ''fact_sales'') (Some ''SELECT 1'') None
       = Inl (ValueError ''Provide either table or query, not both'')"
proof -
  have t: "truthy_str (Some ''fact_sales'')" and q: "truthy_str (Some ''SELECT 1'')"
    by (simp_all add: truthy_str_def)
  from read_rejects_table_and_query [OF t q] t q show ?thesis
    by blast
qed

section \<open>C3: neither table nor query\<close>

lemma synapse_read_requires_table_or_query:
  "\<not> truthy_str table \<Longrightarrow> \<not> truthy_str query \<Longrightarrow>
   AzureSynapseConnector_read syn table query opts
     = Inl (ValueError ''Provide either table or query'')"
  by (simp add: AzureSynapseConnector_read_def)

text \<open>
  \<^bold>\<open>C3\<close>. The claim: with neither a table nor a query, both \<^verbatim>\<open>read\<close> methods raise a
  validation error. \<^verbatim>\<open>AzureSynapseConnector.read\<close> does (lemma
  \<open>synapse_read_requires_table_or_query\<close>). \<^verbatim>\<open>AzureSQLConnector.read\<close> has no such check:
  on a connector built from an empty config, \<^verbatim>\<open>read()\<close> returns the load of a JDBC reader
  whose \<^verbatim>\<open>query\<close> option is \<^verbatim>\<open>None\<close>.
\<close>

theorem sql_read_forwards_empty_request:
  "AzureSQLConnector_init ''s'' ''d'' (Some [])
     = Inr \<lparr>server = ''s'', database = ''d'', jdbc_config = [],
            jdbc_url = ''jdbc:sqlserver://s:1433;database=d;encrypt=true;trustServerCertificate=false;hostNameInCertificate=*.database.windows.net;loginTimeout=30'',
            connection_properties =
              [(''user'', PyStr ''''), (''password'', PyStr ''''),
               (''driver'', PyStr ''com.microsoft.sqlserver.jdbc.SQLServerDriver'')]\<rparr>
   \<and> AzureSQLConnector_read
         \<lparr>server = ''s'', database = ''d'', jdbc_config = [],
          jdbc_url = ''jdbc:sqlserver://s:1433;database=d;encrypt=true;trustServerCertificate=false;hostNameInCertificate=*.database.windows.net;loginTimeout=30'',
          connection_properties =
            [(''user'', PyStr ''''), (''password'', PyStr ''''),
             (''driver'', PyStr ''com.microsoft.sqlserver.jdbc.SQLServerDriver'')]\<rparr>
         None None None
     = Inr \<lparr>format = ''jdbc'',
            options =
              [(''url'', PyStr ''jdbc:sqlserver://s:1433;database=d;encrypt=true;trustServerCertificate=false;hostNameInCertificate=*.database.windows.net;loginTimeout=30''),
               (''user'', PyStr ''''), (''password'', PyStr ''''),
               (''driver'', PyStr ''com.microsoft.sqlserver.jdbc.SQLServerDriver''),
               (''query'', PyNone)],
            path = None\<rparr>"
  by (simp add: AzureSQLConnector_init_def make_connection_properties_def dict_get_def
      or_empty_def truthy_dict_def AzureSQLConnector_read_def truthy_str_def jdbc_read_body_def
      reader_apply_def reader_option_def read_format_def load_def py_of_opt_str_def)

section \<open>C4: the connection string is required\<close>

lemma eventhub_init_missing_key:
  "\<not> dict_contains d ''connection_string'' \<Longrightarrow>
   AzureEventHubConnector_init ns hub (Some d)
     = Inl (ValueError ''connection_string is required in config'')"
  by (simp add: AzureEventHubConnector_init_def)

lemma eventhub_init_with_key:
  "map_of d ''connection_string'' = Some cs \<Longrightarrow>
   AzureEventHubConnector_init ns hub (Some d)
     = Inr \<lparr>namespace = ns, eventhub_name = hub, eventhub_config = d,
            connection_string = cs\<rparr>"
  by (simp add: AzureEventHubConnector_init_def dict_contains_def dict_getitem_def or_empty_simps)

text \<open>
  \<^bold>\<open>C4\<close>. The claim: constructing \<^verbatim>\<open>AzureEventHubConnector\<close> without the key
  \<^verbatim>\<open>connection_string\<close> raises the validation error, also when the config is omitted. With
  a dictionary the constructor does as claimed (lemmas \<open>eventhub_init_missing_key\<close> and
  \<open>eventhub_init_with_key\<close>). With the config omitted it raises \<^verbatim>\<open>TypeError\<close> from the
  membership test on \<^verbatim>\<open>None\<close>, not the \<^verbatim>\<open>ValueError\<close> of the validation.
\<close>

theorem eventhub_init_without_config:
  "AzureEventHubConnector_init ''myeventhub'' ''events'' None = Inl TypeError"
  by (simp add: AzureEventHubConnector_init_def)

section \<open>C5: the URLs of blob storage and of the data lake\<close>

lemma storage_init_fields:
  "storage_init spark_conf acct cont cfg = Inr (self, spark_conf') \<Longrightarrow>
   account_name self = acct \<and> container self = cont \<and> config self = or_empty cfg"
  by (auto simp: storage_init_def Let_def azure_connector_init_def split: sum.splits)

text \<open>
  \<^bold>\<open>C5\<close>. For every container, account name and path, \<^verbatim>\<open>AzureBlobConnector.read\<close> and
  \<^verbatim>\<open>write\<close> load from and save to \<^verbatim>\<open>wasbs://CONTAINER@ACCOUNT.blob.core.windows.net/PATH\<close>,
  and \<^verbatim>\<open>AzureDataLakeGen2Connector.read\<close> and \<^verbatim>\<open>write\<close> use
  \<^verbatim>\<open>abfss://CONTAINER@ACCOUNT.dfs.core.windows.net/PATH\<close>.
\<close>

theorem storage_urls:
  "path (AzureBlobConnector_read self p fmt opts)
     = Some (''wasbs://'' @ container self @ ''@'' @ account_name self
             @ ''.blob.core.windows.net/'' @ p)
   \<and> w_path (AzureBlobConnector_write self df p fmt mode opts)
     = Some (''wasbs://'' @ container self @ ''@'' @ account_name self
             @ ''.blob.core.windows.net/'' @ p)
   \<and> path (AzureDataLakeGen2Connector_read self p fmt opts)
     = Some (''abfss://'' @ container self @ ''@'' @ account_name self
             @ ''.dfs.core.windows.net/'' @ p)
   \<and> w_path (AzureDataLakeGen2Connector_write self df p fmt mode partition_by opts)
     = Some (''abfss://'' @ container self @ ''@'' @ account_name self
             @ ''.dfs.core.windows.net/'' @ p)"
  by (simp add: AzureBlobConnector_read_def AzureBlobConnector_write_def
      AzureDataLakeGen2Connector_read_def AzureDataLakeGen2Connector_write_def
      Let_def load_def save_def blob_full_path_def adls_full_path_def)

section \<open>C6: the connection string of the Event Hub\<close>

text \<open>
  \<^bold>\<open>C6\<close>, as stated: in every call of \<^verbatim>\<open>read_stream\<close> and \<^verbatim>\<open>write_stream\<close> the option
  \<^verbatim>\<open>eventhubs.connectionString\<close> is the connection string of the config. It fails for
  \<^verbatim>\<open>read_stream\<close>: the caller's options are merged over the built-in ones, so a caller who
  passes the key \<^verbatim>\<open>eventhubs.connectionString\<close> replaces the configured value.
\<close>

theorem read_stream_connection_string_overridden:
  "AzureEventHubConnector_init ''myeventhub'' ''events''
       (Some [(''connection_string'', PyStr ''Endpoint=A'')])
     = Inr \<lparr>namespace = ''myeventhub'', eventhub_name = ''events'',
            eventhub_config = [(''connection_string'', PyStr ''Endpoint=A'')],
            connection_string = PyStr ''Endpoint=A''\<rparr>
   \<and> received
         (options
            (AzureEventHubConnector_read_stream
               \<lparr>namespace = ''myeventhub'', eventhub_name = ''events'',
                eventhub_config = [(''connection_string'', PyStr ''Endpoint=A'')],
                connection_string = PyStr ''Endpoint=A''\<rparr>
               ''earliest''
               (Some [(''eventhubs.connectionString'', PyStr ''Endpoint=B'')])))
         ''eventhubs.connectionString''
     = Some (PyStr ''Endpoint=B'')
   \<and> PyStr ''Endpoint=B'' \<noteq> PyStr ''Endpoint=A''"
  by (simp add: AzureEventHubConnector_init_def dict_contains_def dict_getitem_def
      options_read_stream or_empty_def truthy_dict_def dict_update_def received_def)

text \<open>
  \<^bold>\<open>C6\<close>, amended: a constructed connector holds the value stored under
  \<^verbatim>\<open>connection_string\<close> in its config; every \<^verbatim>\<open>write_stream\<close> passes it unchanged as
  \<^verbatim>\<open>eventhubs.connectionString\<close>, and so does every \<^verbatim>\<open>read_stream\<close> whose options do not
  themselves contain that key.
\<close>

theorem eventhub_connection_string_passed:
  assumes "AzureEventHubConnector_init ns hub cfg = Inr self"
  shows "(\<exists>d. cfg = Some d \<and> map_of d ''connection_string'' = Some (connection_string self))
         \<and> received (sw_options (AzureEventHubConnector_write_stream self df cp om tr))
             ''eventhubs.connectionString''
           = Some (connection_string self)
         \<and> (\<not> dict_contains (or_empty opts) ''eventhubs.connectionString'' \<longrightarrow>
              received (options (AzureEventHubConnector_read_stream self sp opts))
                ''eventhubs.connectionString''
              = Some (connection_string self))"
proof (intro conjI impI)
  from assms obtain d where cfg: "cfg = Some d"
    by (cases cfg) (auto simp: AzureEventHubConnector_init_def)
  with assms have "map_of d ''connection_string'' = Some (connection_string self)"
    by (auto simp: AzureEventHubConnector_init_def dict_contains_def dict_getitem_def
        split: if_splits option.splits)
  with cfg show "\<exists>d. cfg = Some d \<and> map_of d ''connection_string'' = Some (connection_string self)"
    by blast
next
  show "received (sw_options (AzureEventHubConnector_write_stream self df cp om tr))
          ''eventhubs.connectionString'' = Some (connection_string self)"
    by (simp add: sw_options_write_stream received_def)
next
  assume "\<not> dict_contains (or_empty opts) ''eventhubs.connectionString''"
  then have "''eventhubs.connectionString'' \<notin> fst ` set (or_empty opts)"
    by (simp add: dict_contains_def map_of_eq_None_iff)
  then have "received (or_empty opts) ''eventhubs.connectionString'' = None"
    by (rule received_absent)
  then show "received (options (AzureEventHubConnector_read_stream self sp opts))
               ''eventhubs.connectionString'' = Some (connection_string self)"
    by (simp add: received_read_stream)
qed

theorem eventhub_connection_string_passed_witness:
  "AzureEventHubConnector_init ''myeventhub'' ''events''
       (Some [(''connection_string'', PyStr ''Endpoint=A'')])
     = Inr \<lparr>namespace = ''myeventhub'', eventhub_name = ''events'',
            eventhub_config = [(''connection_string'', PyStr ''Endpoint=A'')],
            connection_string = PyStr ''Endpoint=A''\<rparr>
   \<and> \<not> dict_contains (or_empty (Some [(''maxEventsPerTrigger'', PyInt 100)]))
         ''eventhubs.connectionString''
   \<and> received
         (sw_options
            (AzureEventHubConnector_write_stream
               \<lparr>namespace = ''myeventhub'', eventhub_name = ''events'',
                eventhub_config = [(''connection_string'', PyStr ''Endpoint=A'')],
                connection_string = PyStr ''Endpoint=A''\<rparr>
               () ''/chk'' ''append'' ''10 seconds''))
         ''eventhubs.connectionString''
     = Some (PyStr ''Endpoint=A'')
   \<and> received
         (options
            (AzureEventHubConnector_read_stream
               \<lparr>namespace = ''myeventhub'', eventhub_name = ''events'',
                eventhub_config = [(''connection_string'', PyStr ''Endpoint=A'')],
                connection_string = PyStr ''Endpoint=A''\<rparr>
               ''earliest'' (Some [(''maxEventsPerTrigger'', PyInt 100)])))
         ''eventhubs.connectionString''
     = Some (PyStr ''Endpoint=A'')"
proof -
  let ?cfg = "[(''connection_string'', PyStr ''Endpoint=A'')]"
  let ?self = "\<lparr>namespace = ''myeventhub'', eventhub_name = ''events'',
                eventhub_config = ?cfg, connection_string = PyStr ''Endpoint=A''\<rparr>"
  have init: "AzureEventHubConnector_init ''myeventhub'' ''events'' (Some ?cfg) = Inr ?self"
    by (simp add: AzureEventHubConnector_init_def dict_contains_def dict_getitem_def
        or_empty_def truthy_dict_def)
  have absent: "\<not> dict_contains (or_empty (Some [(''maxEventsPerTrigger'', PyInt 100)]))
                   ''eventhubs.connectionString''"
    by (simp add: dict_contains_def or_empty_def truthy_dict_def)
  from eventhub_connection_string_passed
         [OF init, of "()" "''/chk''" "''append''" "''10 seconds''"
            "Some [(''maxEventsPerTrigger'', PyInt 100)]" "''earliest''"]
       init absent
  show ?thesis by simp
qed

section \<open>C7: JDBC URLs and connection properties\<close>

text \<open>
  \<^bold>\<open>C7\<close>, as stated: both constructors build their JDBC URL and thread the user, the
  password and the SQL Server driver class from the constructor's config into the
  connection properties. The driver class does not come from the config: the dictionary
  literal of both constructors sets \<^verbatim>\<open>driver\<close> to the fixed class name and never reads a
  \<^verbatim>\<open>driver\<close> entry. With the config \<^verbatim>\<open>{"driver": "x"}\<close> the connection properties hold
  the fixed class, not \<^verbatim>\<open>x\<close>.
\<close>

theorem jdbc_driver_not_from_config:
  "AzureSynapseConnector_init ''srv'' ''db'' (Some [(''driver'', PyStr ''x'')])
     = Inr \<lparr>server = ''srv'', database = ''db'',
            jdbc_config = [(''driver'', PyStr ''x'')],
            jdbc_url = ''jdbc:sqlserver://srv:1433;database=db'',
            connection_properties =
              [(''user'', PyStr ''''), (''password'', PyStr ''''),
               (''driver'', PyStr ''com.microsoft.sqlserver.jdbc.SQLServerDriver'')]\<rparr>
   \<and> AzureSQLConnector_init ''srv'' ''db'' (Some [(''driver'', PyStr ''x'')])
     = Inr \<lparr>server = ''srv'', database = ''db'',
            jdbc_config = [(''driver'', PyStr ''x'')],
            jdbc_url = ''jdbc:sqlserver://srv:1433;database=db;encrypt=true;trustServerCertificate=false;hostNameInCertificate=*.database.windows.net;loginTimeout=30'',
            connection_properties =
              [(''user'', PyStr ''''), (''password'', PyStr ''''),
               (''driver'', PyStr ''com.microsoft.sqlserver.jdbc.SQLServerDriver'')]\<rparr>
   \<and> dict_getitem [(''driver'', PyStr ''x'')] ''driver'' = Inr (PyStr ''x'')
   \<and> map_of [(''user'', PyStr ''''), (''password'', PyStr ''''),
              (''driver'', PyStr ''com.microsoft.sqlserver.jdbc.SQLServerDriver'')] ''driver''
       \<noteq> Some (PyStr ''x'')"
  by (simp add: AzureSynapseConnector_init_def AzureSQLConnector_init_def
      make_connection_properties_def dict_get_def dict_getitem_def or_empty_def truthy_dict_def)

text \<open>
  \<^bold>\<open>C7\<close>, amended. \<^verbatim>\<open>AzureSynapseConnector\<close> builds the URL
  \<^verbatim>\<open>jdbc:sqlserver://SERVER:1433;database=DATABASE\<close>, \<^verbatim>\<open>AzureSQLConnector\<close> the same
  followed by the encryption and timeout settings. Both put the user and the password of
  the constructor's config (the empty string when absent) and the fixed driver class
  \<^verbatim>\<open>com.microsoft.sqlserver.jdbc.SQLServerDriver\<close> into the connection properties, and
  every read that reaches the engine and every write sets the URL and these properties as
  options, before the caller's own.
\<close>

theorem jdbc_urls_and_connection_properties:
  assumes syn: "AzureSynapseConnector_init srv db cfg = Inr syn"
      and sql: "AzureSQLConnector_init srv db cfg = Inr sql"
  shows "jdbc_url syn = ''jdbc:sqlserver://'' @ srv @ '':1433;database='' @ db
       \<and> jdbc_url sql = ''jdbc:sqlserver://'' @ srv @ '':1433;database='' @ db
           @ '';encrypt=true;trustServerCertificate=false;hostNameInCertificate=*.database.windows.net;loginTimeout=30''
       \<and> (\<exists>d. cfg = Some d
              \<and> connection_properties syn =
                  [(''user'', dict_get d ''user'' (PyStr '''')),
                   (''password'', dict_get d ''password'' (PyStr '''')),
                   (''driver'', PyStr ''com.microsoft.sqlserver.jdbc.SQLServerDriver'')]
              \<and> connection_properties sql = connection_properties syn)
       \<and> (\<forall>t q opts req. AzureSynapseConnector_read syn t q opts = Inr req \<longrightarrow>
              options req
                = (''url'', PyStr (jdbc_url syn)) # connection_properties syn
                    @ [if truthy_str t then (''dbtable'', py_of_opt_str t)
                       else (''query'', py_of_opt_str q)]
                    @ or_empty opts)
       \<and> (\<forall>t q opts req. AzureSQLConnector_read sql t q opts = Inr req \<longrightarrow>
              options req
                = (''url'', PyStr (jdbc_url sql)) # connection_properties sql
                    @ [if truthy_str t then (''dbtable'', py_of_opt_str t)
                       else (''query'', py_of_opt_str q)]
                    @ or_empty opts)
       \<and> (\<forall>(df :: 'df) t m opts.
              w_options (AzureSynapseConnector_write syn df t m opts)
                = (''url'', PyStr (jdbc_url syn)) # (''dbtable'', PyStr t)
                    # connection_properties syn @ or_empty opts)
       \<and> (\<forall>(df :: 'df) t m opts.
              w_options (AzureSQLConnector_write sql df t m opts)
                = (''url'', PyStr (jdbc_url sql)) # (''dbtable'', PyStr t)
                    # connection_properties sql @ or_empty opts)"
proof -
  from syn obtain d where cfg: "cfg = Some d"
    by (cases cfg) (simp_all add: jdbc_init_None)
  from syn cfg have syn_eq: "syn = \<lparr>server = srv, database = db, jdbc_config = d,
            jdbc_url = ''jdbc:sqlserver://'' @ srv @ '':1433;database='' @ db,
            connection_properties =
              [(''user'', dict_get d ''user'' (PyStr '''')),
               (''password'', dict_get d ''password'' (PyStr '''')),
               (''driver'', PyStr ''com.microsoft.sqlserver.jdbc.SQLServerDriver'')]\<rparr>"
    by (simp add: jdbc_init_Some)
  from sql cfg have sql_eq: "sql = \<lparr>server = srv, database = db, jdbc_config = d,
            jdbc_url = ''jdbc:sqlserver://'' @ srv @ '':1433;database='' @ db
              @ '';encrypt=true;trustServerCertificate=false;hostNameInCertificate=*.database.windows.net;loginTimeout=30'',
            connection_properties =
              [(''user'', dict_get d ''user'' (PyStr '''')),
               (''password'', dict_get d ''password'' (PyStr '''')),
               (''driver'', PyStr ''com.microsoft.sqlserver.jdbc.SQLServerDriver'')]\<rparr>"
    by (simp add: jdbc_init_Some)
  have url_syn: "jdbc_url syn = ''jdbc:sqlserver://'' @ srv @ '':1433;database='' @ db"
    by (simp add: syn_eq)
  have url_sql: "jdbc_url sql = ''jdbc:sqlserver://'' @ srv @ '':1433;database='' @ db
           @ '';encrypt=true;trustServerCertificate=false;hostNameInCertificate=*.database.windows.net;loginTimeout=30''"
    by (simp add: sql_eq)
  have props: "\<exists>d. cfg = Some d
              \<and> connection_properties syn =
                  [(''user'', dict_get d ''user'' (PyStr '''')),
                   (''password'', dict_get d ''password'' (PyStr '''')),
                   (''driver'', PyStr ''com.microsoft.sqlserver.jdbc.SQLServerDriver'')]
              \<and> connection_properties sql = connection_properties syn"
    using cfg by (simp add: syn_eq sql_eq)
  have read_syn: "\<forall>t q opts req. AzureSynapseConnector_read syn t q opts = Inr req \<longrightarrow>
              options req
                = (''url'', PyStr (jdbc_url syn)) # connection_properties syn
                    @ [if truthy_str t then (''dbtable'', py_of_opt_str t)
                       else (''query'', py_of_opt_str q)]
                    @ or_empty opts"
    by (auto dest!: jdbc_read_Inr(1) simp: options_jdbc_read_body)
  have read_sql: "\<forall>t q opts req. AzureSQLConnector_read sql t q opts = Inr req \<longrightarrow>
              options req
                = (''url'', PyStr (jdbc_url sql)) # connection_properties sql
                    @ [if truthy_str t then (''dbtable'', py_of_opt_str t)
                       else (''query'', py_of_opt_str q)]
                    @ or_empty opts"
    by (auto dest!: jdbc_read_Inr(2) simp: options_jdbc_read_body)
  have write_syn: "\<forall>(df :: 'df) t m opts.
              w_options (AzureSynapseConnector_write syn df t m opts)
                = (''url'', PyStr (jdbc_url syn)) # (''dbtable'', PyStr t)
                    # connection_properties syn @ or_empty opts"
    by (simp add: AzureSynapseConnector_write_def w_options_jdbc_write)
  have write_sql: "\<forall>(df :: 'df) t m opts.
              w_options (AzureSQLConnector_write sql df t m opts)
                = (''url'', PyStr (jdbc_url sql)) # (''dbtable'', PyStr t)
                    # connection_properties sql @ or_empty opts"
    by (simp add: AzureSQLConnector_write_def w_options_jdbc_write)
  from url_syn url_sql props read_syn read_sql write_syn write_sql show ?thesis
    by (intro conjI)
qed

theorem jdbc_urls_and_connection_properties_witness:
  "AzureSynapseConnector_init ''srv'' ''db'' (Some [(''user'', PyStr ''admin''), (''password'', PyStr ''pw'')])
     = Inr \<lparr>server = ''srv'', database = ''db'',
            jdbc_config = [(''user'', PyStr ''admin''), (''password'', PyStr ''pw'')],
            jdbc_url = ''jdbc:sqlserver://srv:1433;database=db'',
            connection_properties =
              [(''user'', PyStr ''admin''), (''password'', PyStr ''pw''),
               (''driver'', PyStr ''com.microsoft.sqlserver.jdbc.SQLServerDriver'')]\<rparr>
   \<and> AzureSQLConnector_init ''srv'' ''db'' (Some [(''user'', PyStr ''admin''), (''password'', PyStr ''pw'')])
     = Inr \<lparr>server = ''srv'', database = ''db'',
            jdbc_config = [(''user'', PyStr ''admin''), (''password'', PyStr ''pw'')],
            jdbc_url = ''jdbc:sqlserver://srv:1433;database=db;encrypt=true;trustServerCertificate=false;hostNameInCertificate=*.database.windows.net;loginTimeout=30'',
            connection_properties =
              [(''user'', PyStr ''admin''), (''password'', PyStr ''pw''),
               (''driver'', PyStr ''com.microsoft.sqlserver.jdbc.SQLServerDriver'')]\<rparr>
   \<and> (\<exists>req.
         AzureSynapseConnector_read
           \<lparr>server = ''srv'', database = ''db'',
            jdbc_config = [(''user'', PyStr ''admin''), (''password'', PyStr ''pw'')],
            jdbc_url = ''jdbc:sqlserver://srv:1433;database=db'',
            connection_properties =
              [(''user'', PyStr ''admin''), (''password'', PyStr ''pw''),
               (''driver'', PyStr ''com.microsoft.sqlserver.jdbc.SQLServerDriver'')]\<rparr>
           (Some ''fact_sales'') None None = Inr req
         \<and> options req
           = [(''url'', PyStr ''jdbc:sqlserver://srv:1433;database=db''),
              (''user'', PyStr ''admin''), (''password'', PyStr ''pw''),
              (''driver'', PyStr ''com.microsoft.sqlserver.jdbc.SQLServerDriver''),
              (''dbtable'', PyStr ''fact_sales'')])
   \<and> (\<exists>req.
         AzureSQLConnector_read
           \<lparr>server = ''srv'', database = ''db'',
            jdbc_config = [(''user'', PyStr ''admin''), (''password'', PyStr ''pw'')],
            jdbc_url = ''jdbc:sqlserver://srv:1433;database=db;encrypt=true;trustServerCertificate=false;hostNameInCertificate=*.database.windows.net;loginTimeout=30'',
            connection_properties =
              [(''user'', PyStr ''admin''), (''password'', PyStr ''pw''),
               (''driver'', PyStr ''com.microsoft.sqlserver.jdbc.SQLServerDriver'')]\<rparr>
           None (Some ''SELECT 1'') None = Inr req
         \<and> options req
           = [(''url'', PyStr ''jdbc:sqlserver://srv:1433;database=db;encrypt=true;trustServerCertificate=false;hostNameInCertificate=*.database.windows.net;loginTimeout=30''),
              (''user'', PyStr ''admin''), (''password'', PyStr ''pw''),
              (''driver'', PyStr ''com.microsoft.sqlserver.jdbc.SQLServerDriver''),
              (''query'', PyStr ''SELECT 1'')])
   \<and> w_options
        (AzureSynapseConnector_write
           \<lparr>server = ''srv'', database = ''db'',
            jdbc_config = [(''user'', PyStr ''admin''), (''password'', PyStr ''pw'')],
            jdbc_url = ''jdbc:sqlserver://srv:1433;database=db'',
            connection_properties =
              [(''user'', PyStr ''admin''), (''password'', PyStr ''pw''),
               (''driver'', PyStr ''com.microsoft.sqlserver.jdbc.SQLServerDriver'')]\<rparr>
           () ''fact_sales'' ''append'' None)
     = [(''url'', PyStr ''jdbc:sqlserver://srv:1433;database=db''),
        (''dbtable'', PyStr ''fact_sales''),
        (''user'', PyStr ''admin''), (''password'', PyStr ''pw''),
        (''driver'', PyStr ''com.microsoft.sqlserver.jdbc.SQLServerDriver'')]"
proof -
  let ?cfg = "[(''user'', PyStr ''admin''), (''password'', PyStr ''pw'')]"
  let ?props = "[(''user'', PyStr ''admin''), (''password'', PyStr ''pw''),
               (''driver'', PyStr ''com.microsoft.sqlserver.jdbc.SQLServerDriver'')]"
  let ?syn = "\<lparr>server = ''srv'', database = ''db'', jdbc_config = ?cfg,
            jdbc_url = ''jdbc:sqlserver://srv:1433;database=db'',
            connection_properties = ?props\<rparr>"
  let ?sql = "\<lparr>server = ''srv'', database = ''db'', jdbc_config = ?cfg,
            jdbc_url = ''jdbc:sqlserver://srv:1433;database=db;encrypt=true;trustServerCertificate=false;hostNameInCertificate=*.database.windows.net;loginTimeout=30'',
            connection_properties = ?props\<rparr>"
  have syn: "AzureSynapseConnector_init ''srv'' ''db'' (Some ?cfg) = Inr ?syn"
    by (simp add: AzureSynapseConnector_init_def make_connection_properties_def dict_get_def
        or_empty_def truthy_dict_def)
  have sql: "AzureSQLConnector_init ''srv'' ''db'' (Some ?cfg) = Inr ?sql"
    by (simp add: AzureSQLConnector_init_def make_connection_properties_def dict_get_def
        or_empty_def truthy_dict_def)
  note T = jdbc_urls_and_connection_properties [OF syn sql, where 'df = unit]
  have rd_syn: "AzureSynapseConnector_read ?syn (Some ''fact_sales'') None None
                  = Inr (jdbc_read_body ?syn (Some ''fact_sales'') None None)"
    by (simp add: AzureSynapseConnector_read_def truthy_str_def)
  have rd_sql: "AzureSQLConnector_read ?sql None (Some ''SELECT 1'') None
                  = Inr (jdbc_read_body ?sql None (Some ''SELECT 1'') None)"
    by (simp add: AzureSQLConnector_read_def truthy_str_def)
  from T [THEN conjunct2, THEN conjunct2, THEN conjunct2, THEN conjunct1, rule_format, OF rd_syn]
  have o_syn: "options (jdbc_read_body ?syn (Some ''fact_sales'') None None)
          = [(''url'', PyStr ''jdbc:sqlserver://srv:1433;database=db'')] @ ?props
              @ [(''dbtable'', PyStr ''fact_sales'')]"
    by (simp add: or_empty_def truthy_dict_def truthy_str_def py_of_opt_str_def)
  from T [THEN conjunct2, THEN conjunct2, THEN conjunct2, THEN conjunct2, THEN conjunct1,
          rule_format, OF rd_sql]
  have o_sql: "options (jdbc_read_body ?sql None (Some ''SELECT 1'') None)
          = [(''url'', PyStr ''jdbc:sqlserver://srv:1433;database=db;encrypt=true;trustServerCertificate=false;hostNameInCertificate=*.database.windows.net;loginTimeout=30'')]
              @ ?props @ [(''query'', PyStr ''SELECT 1'')]"
    by (simp add: or_empty_def truthy_dict_def truthy_str_def py_of_opt_str_def)
  from T [THEN conjunct2, THEN conjunct2, THEN conjunct2, THEN conjunct2, THEN conjunct2,
          THEN conjunct1, rule_format, of "()" "''fact_sales''" "''append''" None]
  have w_syn: "w_options (AzureSynapseConnector_write ?syn () ''fact_sales'' ''append'' None)
          = [(''url'', PyStr ''jdbc:sqlserver://srv:1433;database=db''),
             (''dbtable'', PyStr ''fact_sales'')] @ ?props"
    by (simp add: or_empty_def truthy_dict_def)
  from rd_syn o_syn have e_syn: "\<exists>req.
      AzureSynapseConnector_read ?syn (Some ''fact_sales'') None None = Inr req
      \<and> options req = [(''url'', PyStr ''jdbc:sqlserver://srv:1433;database=db'')] @ ?props
              @ [(''dbtable'', PyStr ''fact_sales'')]"
    by (intro exI conjI)
  from rd_sql o_sql have e_sql: "\<exists>req.
      AzureSQLConnector_read ?sql None (Some ''SELECT 1'') None = Inr req
      \<and> options req = [(''url'', PyStr ''jdbc:sqlserver://srv:1433;database=db;encrypt=true;trustServerCertificate=false;hostNameInCertificate=*.database.windows.net;loginTimeout=30'')]
              @ ?props @ [(''query'', PyStr ''SELECT 1'')]"
    by (intro exI conjI)
  from syn sql e_syn e_sql w_syn show ?thesis
    by simp
qed

section \<open>C8: what \_configure\_auth changes\<close>

text \<open>
  \<^bold>\<open>C8\<close>. With \<^verbatim>\<open>auth_type\<close> \<^verbatim>\<open>account_key\<close> and an account key in the config,
  \<^verbatim>\<open>_configure_auth\<close> sets the one key
  \<^verbatim>\<open>fs.azure.account.key.ACCOUNT.dfs.core.windows.net\<close> to the account key and leaves every
  other entry of the session configuration as it was. With an \<^verbatim>\<open>auth_type\<close> other than
  \<^verbatim>\<open>account_key\<close>, \<^verbatim>\<open>sas_token\<close> and \<^verbatim>\<open>managed_identity\<close>, or with \<^verbatim>\<open>account_key\<close> or
  \<^verbatim>\<open>sas_token\<close> chosen and that credential absent from the config, it changes nothing.
\<close>

theorem configure_auth_frame:
  "(map_of (config self) ''account_key'' = Some key \<longrightarrow>
      configure_auth self (PyStr ''account_key'') spark_conf
        = Inr (spark_conf(''fs.azure.account.key.'' @ account_name self
                            @ ''.dfs.core.windows.net'' \<mapsto> key)))
   \<and> (auth_type \<noteq> PyStr ''account_key'' \<and> auth_type \<noteq> PyStr ''sas_token''
        \<and> auth_type \<noteq> PyStr ''managed_identity'' \<longrightarrow>
      configure_auth self auth_type spark_conf = Inr spark_conf)
   \<and> (\<not> dict_contains (config self) ''account_key'' \<longrightarrow>
      configure_auth self (PyStr ''account_key'') spark_conf = Inr spark_conf)
   \<and> (\<not> dict_contains (config self) ''sas_token'' \<longrightarrow>
      configure_auth self (PyStr ''sas_token'') spark_conf = Inr spark_conf)"
  by (simp add: configure_auth_def dict_contains_def dict_getitem_def conf_set_def)

theorem configure_auth_frame_witness:
  "configure_auth \<lparr>account_name = ''mystorageaccount'', config = [(''account_key'', PyStr ''K'')]\<rparr>
       (PyStr ''account_key'') [''spark.app.name'' \<mapsto> PyStr ''etl'']
     = Inr [''spark.app.name'' \<mapsto> PyStr ''etl'',
            ''fs.azure.account.key.mystorageaccount.dfs.core.windows.net'' \<mapsto> PyStr ''K'']
   \<and> configure_auth \<lparr>account_name = ''mystorageaccount'', config = [(''account_key'', PyStr ''K'')]\<rparr>
       (PyStr ''service_principal'') [''spark.app.name'' \<mapsto> PyStr ''etl'']
     = Inr [''spark.app.name'' \<mapsto> PyStr ''etl'']
   \<and> configure_auth \<lparr>account_name = ''mystorageaccount'', config = []\<rparr>
       (PyStr ''account_key'') [''spark.app.name'' \<mapsto> PyStr ''etl'']
     = Inr [''spark.app.name'' \<mapsto> PyStr ''etl'']
   \<and> configure_auth \<lparr>account_name = ''mystorageaccount'', config = [(''account_key'', PyStr ''K'')]\<rparr>
       (PyStr ''sas_token'') [''spark.app.name'' \<mapsto> PyStr ''etl'']
     = Inr [''spark.app.name'' \<mapsto> PyStr ''etl'']"
proof -
  let ?with_key = "\<lparr>account_name = ''mystorageaccount'', config = [(''account_key'', PyStr ''K'')]\<rparr>"
  let ?without = "\<lparr>account_name = ''mystorageaccount'', config = []\<rparr>"
  let ?conf = "[''spark.app.name'' \<mapsto> PyStr ''etl'']"
  have a: "configure_auth ?with_key (PyStr ''account_key'') ?conf
     = Inr [''spark.app.name'' \<mapsto> PyStr ''etl'',
            ''fs.azure.account.key.mystorageaccount.dfs.core.windows.net'' \<mapsto> PyStr ''K'']"
    using configure_auth_frame [of ?with_key "PyStr ''K''" ?conf] by simp
  have b: "configure_auth ?with_key (PyStr ''service_principal'') ?conf = Inr ?conf"
    using configure_auth_frame [of ?with_key _ ?conf "PyStr ''service_principal''"] by simp
  have c: "configure_auth ?without (PyStr ''account_key'') ?conf = Inr ?conf"
    using configure_auth_frame [of ?without _ ?conf] by (simp add: dict_contains_def)
  have d: "configure_auth ?with_key (PyStr ''sas_token'') ?conf = Inr ?conf"
    using configure_auth_frame [of ?with_key _ ?conf] by (simp add: dict_contains_def)
  from a b c d show ?thesis by simp
qed

section \<open>C9: the JDBC constructors need a config dictionary\<close>

text \<open>
  \<^bold>\<open>C9\<close>. The constructors of \<^verbatim>\<open>AzureSynapseConnector\<close> and \<^verbatim>\<open>AzureSQLConnector\<close> call
  \<^verbatim>\<open>config.get\<close> on their argument: without a config (\<^verbatim>\<open>None\<close>) construction raises
  \<^verbatim>\<open>AttributeError\<close>, with any dictionary, the empty one too, it succeeds, and a missing
  \<^verbatim>\<open>user\<close> or \<^verbatim>\<open>password\<close> becomes the empty string in the connection properties.
\<close>

theorem jdbc_init_needs_config_dict:
  "AzureSynapseConnector_init srv db None = Inl AttributeError
   \<and> AzureSQLConnector_init srv db None = Inl AttributeError
   \<and> (\<exists>syn sql.
         AzureSynapseConnector_init srv db (Some d) = Inr syn
         \<and> AzureSQLConnector_init srv db (Some d) = Inr sql
         \<and> (\<not> dict_contains d ''user'' \<longrightarrow>
               map_of (connection_properties syn) ''user'' = Some (PyStr '''')
               \<and> map_of (connection_properties sql) ''user'' = Some (PyStr ''''))
         \<and> (\<not> dict_contains d ''password'' \<longrightarrow>
               map_of (connection_properties syn) ''password'' = Some (PyStr '''')
               \<and> map_of (connection_properties sql) ''password'' = Some (PyStr '''')))"
  by (simp add: jdbc_init_None jdbc_init_Some dict_contains_def dict_get_def)

theorem jdbc_init_needs_config_dict_witness:
  "\<not> dict_contains [] ''user'' \<and> \<not> dict_contains [] ''password''
   \<and> AzureSynapseConnector_init ''srv'' ''db'' None = Inl AttributeError
   \<and> AzureSQLConnector_init ''srv'' ''db'' None = Inl AttributeError
   \<and> (\<exists>syn sql.
         AzureSynapseConnector_init ''srv'' ''db'' (Some []) = Inr syn
         \<and> AzureSQLConnector_init ''srv'' ''db'' (Some []) = Inr sql
         \<and> map_of (connection_properties syn) ''user'' = Some (PyStr '''')
         \<and> map_of (connection_properties sql) ''user'' = Some (PyStr '''')
         \<and> map_of (connection_properties syn) ''password'' = Some (PyStr '''')
         \<and> map_of (connection_properties sql) ''password'' = Some (PyStr ''''))"
proof -
  have absent: "\<not> dict_contains [] ''user''" "\<not> dict_contains [] ''password''"
    by (simp_all add: dict_contains_def)
  with jdbc_init_needs_config_dict [of "''srv''" "''db''" "[]"] show ?thesis
    by blast
qed

section \<open>C10: the caller's options come last\<close>

text \<open>
  \<^bold>\<open>C10\<close>. In every \<^verbatim>\<open>read\<close>, \<^verbatim>\<open>write\<close> and \<^verbatim>\<open>read_stream\<close> the caller's options are
  applied after the connector's own settings: for a key \<open>k\<close> that the caller's options
  \<open>d\<close> map to \<open>v\<close>, the value the engine receives for \<open>k\<close> is \<open>v\<close>, whatever the
  connector set for \<open>k\<close> before.
\<close>

theorem caller_options_override:
  assumes wf: "distinct (map fst d)" and kv: "map_of d k = Some v"
  shows "received (options (AzureBlobConnector_read st p fmt (Some d))) k = Some v
       \<and> received (w_options (AzureBlobConnector_write st (df :: 'df) p fmt m (Some d))) k = Some v
       \<and> received (options (AzureDataLakeGen2Connector_read st p fmt (Some d))) k = Some v
       \<and> received (w_options (AzureDataLakeGen2Connector_write st df p fmt m pb (Some d))) k
           = Some v
       \<and> (\<forall>req. AzureSynapseConnector_read jc t q (Some d) = Inr req \<longrightarrow>
             received (options req) k = Some v)
       \<and> (\<forall>req. AzureSQLConnector_read jc t q (Some d) = Inr req \<longrightarrow>
             received (options req) k = Some v)
       \<and> received (w_options (AzureSynapseConnector_write jc df tbl m (Some d))) k = Some v
       \<and> received (w_options (AzureSQLConnector_write jc df tbl m (Some d))) k = Some v
       \<and> received (options (AzureEventHubConnector_read_stream eh sp (Some d))) k = Some v"
proof -
  have last: "received (pre @ d) k = Some v" for pre
    using wf kv by (rule received_suffix)
  have own: "received d k = Some v"
    using last [of "[]"] by simp
  have blob_r: "received (options (AzureBlobConnector_read st p fmt (Some d))) k = Some v"
    by (simp add: options_blob_read or_empty_simps own)
  have blob_w: "received (w_options (AzureBlobConnector_write st df p fmt m (Some d))) k = Some v"
    by (simp add: w_options_blob_write or_empty_simps own)
  have adls_r: "received (options (AzureDataLakeGen2Connector_read st p fmt (Some d))) k = Some v"
    by (simp add: options_adls_read or_empty_simps own)
  have adls_w:
    "received (w_options (AzureDataLakeGen2Connector_write st df p fmt m pb (Some d))) k = Some v"
    by (simp add: w_options_adls_write or_empty_simps own)
  have body: "received (options (jdbc_read_body jc t q (Some d))) k = Some v"
    unfolding options_jdbc_read_body or_empty_simps append_assoc [symmetric]
    by (rule last)
  have syn_r: "\<forall>req. AzureSynapseConnector_read jc t q (Some d) = Inr req \<longrightarrow>
                 received (options req) k = Some v"
    using body by (auto dest!: jdbc_read_Inr(1))
  have sql_r: "\<forall>req. AzureSQLConnector_read jc t q (Some d) = Inr req \<longrightarrow>
                 received (options req) k = Some v"
    using body by (auto dest!: jdbc_read_Inr(2))
  have jw: "received (w_options (jdbc_write jc df tbl m (Some d))) k = Some v"
    unfolding w_options_jdbc_write or_empty_simps append_assoc [symmetric]
    by (rule last)
  have syn_w: "received (w_options (AzureSynapseConnector_write jc df tbl m (Some d))) k = Some v"
    using jw by (simp add: AzureSynapseConnector_write_def)
  have sql_w: "received (w_options (AzureSQLConnector_write jc df tbl m (Some d))) k = Some v"
    using jw by (simp add: AzureSQLConnector_write_def)
  have stream: "received (options (AzureEventHubConnector_read_stream eh sp (Some d))) k = Some v"
    by (simp add: received_read_stream or_empty_simps own)
  from blob_r blob_w adls_r adls_w syn_r sql_r syn_w sql_w stream show ?thesis
    by (intro conjI)
qed

theorem caller_options_override_witness:
  "distinct (map fst [(''url'', PyStr ''jdbc:other''), (''fetchsize'', PyInt 1000)])
   \<and> map_of [(''url'', PyStr ''jdbc:other''), (''fetchsize'', PyInt 1000)] ''url''
       = Some (PyStr ''jdbc:other'')
   \<and> AzureSynapseConnector_read
         \<lparr>server = ''srv'', database = ''db'', jdbc_config = [],
          jdbc_url = ''jdbc:sqlserver://srv:1433;database=db'',
          connection_properties =
            [(''user'', PyStr ''''), (''password'', PyStr ''''),
             (''driver'', PyStr ''com.microsoft.sqlserver.jdbc.SQLServerDriver'')]\<rparr>
         (Some ''fact_sales'') None
         (Some [(''url'', PyStr ''jdbc:other''), (''fetchsize'', PyInt 1000)])
       = Inr \<lparr>format = ''jdbc'',
              options =
                [(''url'', PyStr ''jdbc:sqlserver://srv:1433;database=db''),
                 (''user'', PyStr ''''), (''password'', PyStr ''''),
                 (''driver'', PyStr ''com.microsoft.sqlserver.jdbc.SQLServerDriver''),
                 (''dbtable'', PyStr ''fact_sales''),
                 (''url'', PyStr ''jdbc:other''), (''fetchsize'', PyInt 1000)],
              path = None\<rparr>
   \<and> AzureSQLConnector_read
         \<lparr>server = ''srv'', database = ''db'', jdbc_config = [],
          jdbc_url = ''jdbc:sqlserver://srv:1433;database=db'',
          connection_properties =
            [(''user'', PyStr ''''), (''password'', PyStr ''''),
             (''driver'', PyStr ''com.microsoft.sqlserver.jdbc.SQLServerDriver'')]\<rparr>
         (Some ''fact_sales'') None
         (Some [(''url'', PyStr ''jdbc:other''), (''fetchsize'', PyInt 1000)])
       = Inr \<lparr>format = ''jdbc'',
              options =
                [(''url'', PyStr ''jdbc:sqlserver://srv:1433;database=db''),
                 (''user'', PyStr ''''), (''password'', PyStr ''''),
                 (''driver'', PyStr ''com.microsoft.sqlserver.jdbc.SQLServerDriver''),
                 (''dbtable'', PyStr ''fact_sales''),
                 (''url'', PyStr ''jdbc:other''), (''fetchsize'', PyInt 1000)],
              path = None\<rparr>
   \<and> received
         [(''url'', PyStr ''jdbc:sqlserver://srv:1433;database=db''),
          (''user'', PyStr ''''), (''password'', PyStr ''''),
          (''driver'', PyStr ''com.microsoft.sqlserver.jdbc.SQLServerDriver''),
          (''dbtable'', PyStr ''fact_sales''),
          (''url'', PyStr ''jdbc:other''), (''fetchsize'', PyInt 1000)]
         ''url''
       = Some (PyStr ''jdbc:other'')"
proof -
  let ?d = "[(''url'', PyStr ''jdbc:other''), (''fetchsize'', PyInt 1000)]"
  let ?jc = "\<lparr>server = ''srv'', database = ''db'', jdbc_config = [],
          jdbc_url = ''jdbc:sqlserver://srv:1433;database=db'',
          connection_properties =
            [(''user'', PyStr ''''), (''password'', PyStr ''''),
             (''driver'', PyStr ''com.microsoft.sqlserver.jdbc.SQLServerDriver'')]\<rparr>"
  let ?req = "\<lparr>format = ''jdbc'',
              options =
                [(''url'', PyStr ''jdbc:sqlserver://srv:1433;database=db''),
                 (''user'', PyStr ''''), (''password'', PyStr ''''),
                 (''driver'', PyStr ''com.microsoft.sqlserver.jdbc.SQLServerDriver''),
                 (''dbtable'', PyStr ''fact_sales''),
                 (''url'', PyStr ''jdbc:other''), (''fetchsize'', PyInt 1000)],
              path = None\<rparr>"
  have wf: "distinct (map fst ?d)" by simp
  have kv: "map_of ?d ''url'' = Some (PyStr ''jdbc:other'')" by simp
  have rd: "AzureSynapseConnector_read ?jc (Some ''fact_sales'') None (Some ?d) = Inr ?req"
    by (simp add: AzureSynapseConnector_read_def truthy_str_def jdbc_read_body_def
        reader_apply_def truthy_dict_def reader_option_def read_format_def load_def
        py_of_opt_str_def)
  have rd_sql: "AzureSQLConnector_read ?jc (Some ''fact_sales'') None (Some ?d) = Inr ?req"
    by (simp add: AzureSQLConnector_read_def truthy_str_def jdbc_read_body_def
        reader_apply_def truthy_dict_def reader_option_def read_format_def load_def
        py_of_opt_str_def)
  have via_synapse: "received (options ?req) ''url'' = Some (PyStr ''jdbc:other'')"
    by (rule caller_options_override [OF wf kv, THEN conjunct2, THEN conjunct2, THEN conjunct2,
          THEN conjunct2, THEN conjunct1, rule_format, OF rd])
  have via_sql: "received (options ?req) ''url'' = Some (PyStr ''jdbc:other'')"
    by (rule caller_options_override [OF wf kv, THEN conjunct2, THEN conjunct2, THEN conjunct2,
          THEN conjunct2, THEN conjunct2, THEN conjunct1, rule_format, OF rd_sql])
  from via_synapse via_sql have "received
         [(''url'', PyStr ''jdbc:sqlserver://srv:1433;database=db''),
          (''user'', PyStr ''''), (''password'', PyStr ''''),
          (''driver'', PyStr ''com.microsoft.sqlserver.jdbc.SQLServerDriver''),
          (''dbtable'', PyStr ''fact_sales''),
          (''url'', PyStr ''jdbc:other''), (''fetchsize'', PyInt 1000)]
         ''url'' = Some (PyStr ''jdbc:other'')"
    by simp
  with wf kv rd rd_sql show ?thesis
    by (intro conjI)
qed

end
